theory Spec2Isabelle
  imports Complex_Main "HOL-Library.Char_ord" "HOL-Library.List_Lexorder"
begin

section \<open>Data model\<close>

text \<open>
  One row of the table read by \<open>load_data\<close> (\<open>pd.read_csv\<close>). A cell that pandas
  reads as NaN is \<open>None\<close>. The columns the script tests with \<open>dropna\<close>, \<open>notna\<close> or
  \<open>fillna\<close>, and the measure columns, are nullable. \<open>year\<close> is an integer column: the
  script builds the decade label from \<open>year // 10 * 10\<close> as an integer. Floating-point
  cells are idealised as real numbers.
\<close>

record incident =
  year :: int
  month :: int
  country :: "string option"
  city :: "string option"
  region :: "string option"
  latitude :: "real option"
  longitude :: "real option"
  attack_type :: "string option"
  target_type :: "string option"
  group_name :: "string option"
  nkill :: "real option"
  nwound :: "real option"
  success :: "int option"

text \<open>The values of the sidebar widgets (lines 140 to 156 of \<open>dashboard.py\<close>).\<close>

record criteria =
  year_range :: "int \<times> int"
  selected_region :: string
  selected_country :: string
  selected_attack :: string
  success_filter :: string

section \<open>Filter block (lines 169 to 180)\<close>

definition apply_filters :: "criteria \<Rightarrow> incident list \<Rightarrow> incident list" where
  "apply_filters c df =
    (let f0 = filter (\<lambda>r. year r \<ge> fst (year_range c) \<and> year r \<le> snd (year_range c)) df;
         f1 = (if selected_region c \<noteq> ''All Regions''
               then filter (\<lambda>r. region r = Some (selected_region c)) f0 else f0);
         f2 = (if selected_country c \<noteq> ''All Countries''
               then filter (\<lambda>r. country r = Some (selected_country c)) f1 else f1);
         f3 = (if selected_attack c \<noteq> ''All Types''
               then filter (\<lambda>r. attack_type r = Some (selected_attack c)) f2 else f2)
     in if success_filter c = ''Successful'' then filter (\<lambda>r. success r = Some 1) f3
        else if success_filter c = ''Failed'' then filter (\<lambda>r. success r = Some 0) f3
        else f3)"

text \<open>
  The predicates that are active under the criteria, in the order in which the script
  applies them; a disabled selector contributes no pass.
\<close>

definition passes :: "criteria \<Rightarrow> (incident \<Rightarrow> bool) list" where
  "passes c =
     [\<lambda>r. year r \<ge> fst (year_range c) \<and> year r \<le> snd (year_range c)]
     @ (if selected_region c \<noteq> ''All Regions''
        then [\<lambda>r. region r = Some (selected_region c)] else [])
     @ (if selected_country c \<noteq> ''All Countries''
        then [\<lambda>r. country r = Some (selected_country c)] else [])
     @ (if selected_attack c \<noteq> ''All Types''
        then [\<lambda>r. attack_type r = Some (selected_attack c)] else [])
     @ (if success_filter c = ''Successful'' then [\<lambda>r. success r = Some 1]
        else if success_filter c = ''Failed'' then [\<lambda>r. success r = Some 0]
        else [])"

section \<open>Column reductions of pandas\<close>

text \<open>\<open>Series.sum\<close>, \<open>count\<close> and \<open>mean\<close> skip NaN; the mean of no value is NaN.\<close>

definition sum_col :: "('r \<Rightarrow> real option) \<Rightarrow> 'r list \<Rightarrow> real" where
  "sum_col f v = sum_list (List.map_filter f v)"

definition count_col :: "('r \<Rightarrow> 'a option) \<Rightarrow> 'r list \<Rightarrow> nat" where
  "count_col f v = length (List.map_filter f v)"

definition mean_col :: "('r \<Rightarrow> real option) \<Rightarrow> 'r list \<Rightarrow> real option" where
  "mean_col f v =
     (let xs = List.map_filter f v
      in if xs = [] then None else Some (sum_list xs / of_nat (length xs)))"

text \<open>\<open>groupby\<close> sorts the distinct keys in ascending order.\<close>

definition groupby_keys :: "'k::linorder list \<Rightarrow> 'k list" where
  "groupby_keys ks = remdups (sort ks)"

section \<open>Yearly trend (lines 214 to 217)\<close>

text \<open>Columns \<open>year, killed, wounded, attacks, success_rate\<close>.\<close>

definition yearly :: "incident list \<Rightarrow> (int \<times> real \<times> real \<times> nat \<times> real option) list" where
  "yearly v =
     map (\<lambda>y. let g = filter (\<lambda>r. year r = y) v
              in (y, sum_col nkill g, sum_col nwound g, count_col country g,
                  mean_col (\<lambda>r. map_option of_int (success r)) g))
         (groupby_keys (map year v))"

section \<open>Scenario data\<close>

text \<open>
  The two-record dataset of the specification's scenario. The scenario fixes six columns
  of each record; \<open>nwound\<close> is not given, hence null; the remaining columns are taken
  from the arguments \<open>a\<close> and \<open>b\<close>.
\<close>

definition scenario_first :: "incident \<Rightarrow> incident" where
  "scenario_first a =
     a\<lparr>year := 1999, region := Some ''A'', country := Some ''X'',
       attack_type := Some ''Bombing'', nkill := Some 5, nwound := None, success := Some 1\<rparr>"

definition scenario_second :: "incident \<Rightarrow> incident" where
  "scenario_second b =
     b\<lparr>year := 2001, region := Some ''B'', country := Some ''Y'',
       attack_type := Some ''Assault'', nkill := Some 0, nwound := None, success := Some 0\<rparr>"

definition scenario_dataset :: "incident \<Rightarrow> incident \<Rightarrow> incident list" where
  "scenario_dataset a b = [scenario_first a, scenario_second b]"

definition scenario_criteria :: criteria where
  "scenario_criteria =
     \<lparr>year_range = (2000, 2020), selected_region = ''All Regions'',
      selected_country = ''All Countries'', selected_attack = ''All Types'',
      success_filter = ''All''\<rparr>"

text \<open>A row with every nullable cell null, used to build concrete tables.\<close>

definition blank :: incident where
  "blank =
     \<lparr>year = 2000, month = 1, country = None, city = None, region = None, latitude = None,
      longitude = None, attack_type = None, target_type = None, group_name = None,
      nkill = None, nwound = None, success = None\<rparr>"

section \<open>Properties of the filter\<close>

lemma apply_filters_conj:
  "apply_filters c df = filter (\<lambda>r. \<forall>p \<in> set (passes c). p r) df"
  by (simp add: apply_filters_def passes_def Let_def conj_commute conj_left_commute
      cong: conj_cong)

lemma fold_filter_conj:
  "fold filter ps xs = filter (\<lambda>r. \<forall>p \<in> set ps. p r) xs"
proof (induction ps arbitrary: xs)
  case Nil
  show ?case by simp
next
  case (Cons p ps)
  show ?case by (simp add: Cons.IH conj_commute)
qed

text \<open>
  Claim C5. The filtered view has at most as many rows as the dataset; each of its rows
  lies in the inclusive year range and matches the region, the country, the attack type
  and the outcome exactly whenever that selector is set; and the active predicates may be
  applied as successive passes in any order (and any number of times) with the same result.
\<close>

theorem filtered_view_satisfies_criteria:
  "length (apply_filters c df) \<le> length df
   \<and> (\<forall>r \<in> set (apply_filters c df).
        fst (year_range c) \<le> year r \<and> year r \<le> snd (year_range c)
        \<and> (selected_region c \<noteq> ''All Regions'' \<longrightarrow> region r = Some (selected_region c))
        \<and> (selected_country c \<noteq> ''All Countries'' \<longrightarrow> country r = Some (selected_country c))
        \<and> (selected_attack c \<noteq> ''All Types'' \<longrightarrow> attack_type r = Some (selected_attack c))
        \<and> (success_filter c = ''Successful'' \<longrightarrow> success r = Some 1)
        \<and> (success_filter c = ''Failed'' \<longrightarrow> success r = Some 0))
   \<and> (\<forall>ps. set ps = set (passes c) \<longrightarrow> fold filter ps df = apply_filters c df)"
proof (intro conjI ballI allI impI)
  show "length (apply_filters c df) \<le> length df"
    by (simp add: apply_filters_conj)
next
  fix ps assume "set ps = set (passes c)"
  then show "fold filter ps df = apply_filters c df"
    by (simp add: apply_filters_conj fold_filter_conj)
next
  fix r assume r: "r \<in> set (apply_filters c df)"
  then have a: "\<forall>p \<in> set (passes c). p r" by (auto simp: apply_filters_conj)
  from a show "fst (year_range c) \<le> year r" by (simp add: passes_def)
  from a show "year r \<le> snd (year_range c)" by (simp add: passes_def)
  { assume "selected_region c \<noteq> ''All Regions''"
    with a show "region r = Some (selected_region c)" by (simp add: passes_def) }
  { assume "selected_country c \<noteq> ''All Countries''"
    with a show "country r = Some (selected_country c)" by (simp add: passes_def) }
  { assume "selected_attack c \<noteq> ''All Types''"
    with a show "attack_type r = Some (selected_attack c)" by (simp add: passes_def) }
  { assume "success_filter c = ''Successful''"
    with a show "success r = Some 1" by (simp add: passes_def) }
  { assume "success_filter c = ''Failed''"
    with a show "success r = Some 0" by (simp add: passes_def) }
qed

theorem filtered_view_satisfies_criteria_witness:
  "apply_filters
     (scenario_criteria\<lparr>selected_region := ''B'', selected_country := ''Y'',
        selected_attack := ''Assault'', success_filter := ''Failed''\<rparr>)
     (scenario_dataset blank blank) = [scenario_second blank]
   \<and> region (scenario_second blank) = Some ''B''
   \<and> success (scenario_second blank) = Some 0
   \<and> fold filter
        (rev (passes (scenario_criteria\<lparr>selected_region := ''B'', selected_country := ''Y'',
           selected_attack := ''Assault'', success_filter := ''Failed''\<rparr>)))
        (scenario_dataset blank blank) = [scenario_second blank]"
proof -
  let ?c = "scenario_criteria\<lparr>selected_region := ''B'', selected_country := ''Y'',
        selected_attack := ''Assault'', success_filter := ''Failed''\<rparr>"
  let ?d = "scenario_dataset blank blank"
  note t = filtered_view_satisfies_criteria [of ?c ?d]
  have v: "apply_filters ?c ?d = [scenario_second blank]"
    by (simp add: apply_filters_def scenario_criteria_def scenario_dataset_def
        scenario_first_def scenario_second_def)
  have "set (rev (passes ?c)) = set (passes ?c)" by simp
  with t have f: "fold filter (rev (passes ?c)) ?d = apply_filters ?c ?d" by blast
  from t v have "region (scenario_second blank) = Some ''B''
      \<and> success (scenario_second blank) = Some 0"
    by (simp add: scenario_criteria_def)
  with v f show ?thesis by simp
qed

text \<open>
  Claim C7. Filtering is idempotent: a second pass of the filter block with the same
  criteria over the filtered view returns the filtered view.
\<close>

theorem filter_idempotent:
  "apply_filters c (apply_filters c df) = apply_filters c df"
  by (simp add: apply_filters_conj)

text \<open>
  Claim C6. For the two-record scenario dataset and the year range 2000 to 2020 with
  every other selector unset, the filtered view is exactly the second record, and the
  yearly trend is the single row year 2001, killed 0, wounded 0, attacks 1, success
  rate 0.
\<close>

theorem scenario_view_and_trend:
  "apply_filters scenario_criteria (scenario_dataset a b) = [scenario_second b]
   \<and> yearly (apply_filters scenario_criteria (scenario_dataset a b))
       = [(2001, 0, 0, 1, Some 0)]"
  by (simp add: apply_filters_def scenario_criteria_def scenario_dataset_def
      scenario_first_def scenario_second_def yearly_def
      groupby_keys_def sum_col_def count_col_def mean_col_def)

end
